theory Spec2Isabelle
  imports Main "HOL-Library.Word"
begin

unbundle bit_operations_syntax

section \<open>Go primitives used by value.go\<close>

text \<open>
  A Go panic is a value: a method that may panic returns \<open>error + 'a\<close>, with \<open>Inl\<close>
  the panic.  \<open>panic(typeError(s))\<close> is \<open>TypeError s\<close>, a panic with a plain string
  is \<open>Panic s\<close>, the reference error raised through the runtime is
  \<open>ReferenceError name\<close>, and a panic of the Go runtime itself (a \<open>runtime.Error\<close>) is
  \<open>RuntimeError\<close> with its text.
\<close>

datatype error = ReferenceError string | TypeError string | Panic string | RuntimeError string

type_synonym 'a result = "error + 'a"

text \<open>
  Go's \<open>int\<close> is 64 bits wide on the platforms the file compiles for (it returns
  \<open>math.MaxInt64\<close> as an \<open>int\<close>), so \<open>valueInt\<close> and \<open>valueInt64\<close> both carry a 64-bit
  word, read as two's complement by \<open>sint\<close>.  The conversion \<open>uint64(i)\<close> keeps the bits.
\<close>

type_synonym int64 = "64 word"
type_synonym uint64 = "64 word"
type_synonym int32 = "32 word"
type_synonym uint32 = "32 word"

subsection \<open>float64 as its IEEE-754 bit pattern\<close>

text \<open>
  A \<open>float64\<close> is its 64-bit pattern: sign bit 63, exponent field bits 62..52, fraction
  bits 51..0.  \<open>math.Float64bits\<close> and \<open>math.Float64frombits\<close> are the selector and the
  constructor.
\<close>

datatype float64 = Float64frombits (Float64bits: "64 word")

definition fexp :: "float64 \<Rightarrow> int" where
  "fexp f = uint (drop_bit 52 (Float64bits f) AND 0x7FF)"

definition fman :: "float64 \<Rightarrow> int" where
  "fman f = uint (Float64bits f AND 0xFFFFFFFFFFFFF)"

definition Signbit :: "float64 \<Rightarrow> bool" where
  "Signbit f = bit (Float64bits f) 63"

definition IsNaN :: "float64 \<Rightarrow> bool" where
  "IsNaN f = (fexp f = 2047 \<and> fman f \<noteq> 0)"

definition IsInf :: "float64 \<Rightarrow> int \<Rightarrow> bool" where
  "IsInf f sign =
     ((0 \<le> sign \<and> Float64bits f = 0x7FF0000000000000) \<or>
      (sign \<le> 0 \<and> Float64bits f = 0xFFF0000000000000))"

definition is_zero :: "float64 \<Rightarrow> bool" where
  "is_zero f = (Float64bits f AND 0x7FFFFFFFFFFFFFFF = 0)"

text \<open>
  Go's \<open>==\<close> on float64 is the IEEE comparison: a NaN equals nothing, the two zeros
  equal each other, and every other value has one bit pattern.
\<close>

definition float_eq :: "float64 \<Rightarrow> float64 \<Rightarrow> bool" where
  "float_eq a b =
     (\<not> IsNaN a \<and> \<not> IsNaN b \<and> (Float64bits a = Float64bits b \<or> (is_zero a \<and> is_zero b)))"

text \<open>The constants of the file: \<open>math.NaN()\<close>, \<open>math.Inf(\<plusminus>1)\<close>, \<open>0.0\<close> and \<open>negativeZero\<close>.\<close>

definition NaN :: float64 where
  "NaN = Float64frombits 0x7FF8000000000001"

definition Inf :: "int \<Rightarrow> float64" where
  "Inf sign = (if 0 \<le> sign then Float64frombits 0x7FF0000000000000
               else Float64frombits 0xFFF0000000000000)"

definition positiveZero :: float64 where
  "positiveZero = Float64frombits 0"

definition negativeZero :: float64 where
  "negativeZero = Float64frombits (0 OR push_bit 63 1)"

text \<open>
  The conversion \<open>float64(i)\<close> of an integer: exact up to 53 significant bits, rounded to
  nearest with ties to even beyond.  \<open>bit_len a\<close> is the number of bits of \<open>a\<close>.
\<close>

function bit_len :: "int \<Rightarrow> nat" where
  "bit_len n = (if n \<le> 0 then 0 else Suc (bit_len (n div 2)))"
  by pat_completeness auto
termination
  by (relation "measure nat") auto

declare bit_len.simps [simp del]

definition round_even :: "int \<Rightarrow> nat \<Rightarrow> int" where
  "round_even a s =
     (let q = a div 2 ^ s; r = a mod 2 ^ s
      in if 2 ^ s < 2 * r \<or> (2 * r = 2 ^ s \<and> odd q) then q + 1 else q)"

definition float64_of_int :: "int \<Rightarrow> float64" where
  "float64_of_int i =
     (if i = 0 then Float64frombits 0
      else
        let a = \<bar>i\<bar>;
            e = bit_len a - 1;
            m = (if e \<le> 52 then a * 2 ^ (52 - e) else round_even a (e - 52));
            s = (if i < 0 then 2 ^ 63 else 0)
        in Float64frombits (word_of_int (s + (1023 + int e) * 2 ^ 52 + (m - 2 ^ 52))))"

text \<open>\<open>float64(i)\<close> for a 64-bit signed integer.\<close>

definition float64_int64 :: "int64 \<Rightarrow> float64" where
  "float64_int64 i = float64_of_int (sint i)"

text \<open>
  The conversion of a finite float64 to an integer type truncates towards zero.  When the
  truncated value does not fit the result type, Go leaves the result to the
  implementation: the model takes that result from the parameter \<open>impl\<close>.
\<close>

definition float64_trunc :: "float64 \<Rightarrow> int" where
  "float64_trunc f =
     (let e = fexp f;
          m = fman f;
          mag = (if e = 0 then 0
                 else if 1075 \<le> e then (2 ^ 52 + m) * 2 ^ nat (e - 1075)
                 else (2 ^ 52 + m) div 2 ^ nat (1075 - e))
      in if Signbit f then - mag else mag)"

definition uint32_float64 :: "(float64 \<Rightarrow> uint32) \<Rightarrow> float64 \<Rightarrow> uint32" where
  "uint32_float64 impl f =
     (let t = float64_trunc f
      in if 0 \<le> t \<and> t < 2 ^ 32 then word_of_int t else impl f)"

definition int32_float64 :: "(float64 \<Rightarrow> int32) \<Rightarrow> float64 \<Rightarrow> int32" where
  "int32_float64 impl f =
     (let t = float64_trunc f
      in if - (2 ^ 31) \<le> t \<and> t < 2 ^ 31 then word_of_int t else impl f)"

definition MaxInt32 :: int where
  "MaxInt32 = 2 ^ 31 - 1"

definition MinInt32 :: int where
  "MinInt32 = - (2 ^ 31)"

definition MaxUint32 :: int where
  "MaxUint32 = 2 ^ 32 - 1"

section \<open>The value kinds\<close>

text \<open>
  The \<open>Value\<close> interface is implemented by a closed set of types.  References
  (\<open>*Object\<close>, \<open>*Symbol\<close>, \<open>*Runtime\<close>) are modelled by their identity.  An interface
  or pointer field that may be \<open>nil\<close> is an \<open>option\<close>.
\<close>

datatype Runtime = MkRuntime (rtId: nat)

datatype Object = MkObject (objId: nat)

datatype Symbol = MkSymbol (sym_h: uint64) (desc: "string option")

datatype valueUnresolved = MkUnresolved (rt: Runtime) (ref: string)

datatype Value =
    valueInt int64
  | valueInt64 int64
  | valueFloat float64
  | valueBool bool
  | valueNull
  | valueUndefined
  | valueString string
  | VSymbol Symbol
  | VObject Object
  | VProperty nat
  | VUnresolved valueUnresolved

text \<open>
  A \<open>*valueProperty\<close> is a \<open>Value\<close> by its address (\<open>VProperty\<close>); the struct it points
  to is the record below, which \<open>set\<close> updates.
\<close>

record valueProperty =
  val :: "Value option"
  writable :: bool
  configurable :: bool
  enumerable :: bool
  accessor :: bool
  getterFunc :: "Object option"
  setterFunc :: "Object option"

record FunctionCall =
  ctx :: nat
  This :: "Value option"
  Arguments :: "Value option list"

text \<open>
  What the file calls but does not define: the Object collaborator (\<open>assertCallable\<close>,
  \<open>toPrimitive\<close>, the context \<open>runtime.vm.ctx\<close> of the object), the string collaborator
  (\<open>ToNumber\<close> and \<open>ToFloat\<close> of a \<open>valueString\<close>), the \<open>Equals\<close> methods of the kinds
  whose methods live elsewhere, and the Runtime's \<open>throwReferenceError\<close>.  They are
  parameters of the model; a call that panics returns \<open>Inl\<close>.
\<close>

record host =
  assertCallable :: "Object \<Rightarrow> (FunctionCall \<Rightarrow> Value result) option"
  vm_ctx :: "Object \<Rightarrow> nat"
  toPrimitive :: "Object \<Rightarrow> Value result"
  string_ToNumber :: "string \<Rightarrow> Value"
  string_ToFloat :: "string \<Rightarrow> float64"
  other_Equals :: "Value \<Rightarrow> Value \<Rightarrow> bool result"
  throwReferenceError :: "Runtime \<Rightarrow> string \<Rightarrow> unit result"

definition SizeString :: uint64 where
  "SizeString = 16"

section \<open>valueBool\<close>

definition valueBool_ToInteger :: "bool \<Rightarrow> int64" where
  "valueBool_ToInteger b = (if b then 1 else 0)"

definition valueBool_ToFloat :: "bool \<Rightarrow> float64" where
  "valueBool_ToFloat b = (if b then float64_of_int 1 else Float64frombits 0)"

section \<open>valueInt\<close>

text \<open>
  \<open>i == other\<close> compares a \<open>valueInt\<close> with an interface value: true only when the
  dynamic type of \<open>other\<close> is \<open>valueInt\<close> and its value is \<open>i\<close>.
\<close>

definition valueInt_SameAs :: "int64 \<Rightarrow> Value \<Rightarrow> bool" where
  "valueInt_SameAs i other = (other = valueInt i)"

definition valueInt_StrictEquals :: "int64 \<Rightarrow> Value \<Rightarrow> bool" where
  "valueInt_StrictEquals i other =
     (case other of
        valueInt o1 \<Rightarrow> i = o1
      | valueInt64 o1 \<Rightarrow> i = o1
      | valueFloat o1 \<Rightarrow> float_eq (float64_int64 i) o1
      | _ \<Rightarrow> False)"

text \<open>
  \<open>hash\<close> takes a \<open>*maphash.Hash\<close> that none of the methods modelled here reads; it is
  left out.  \<open>uint64(i)\<close> keeps the bits of \<open>i\<close>.
\<close>

definition valueInt_hash :: "int64 \<Rightarrow> uint64" where
  "valueInt_hash i = i"

section \<open>valueFloat\<close>

definition valueFloat_ToInt32 :: "(float64 \<Rightarrow> int32) \<Rightarrow> float64 \<Rightarrow> int32" where
  "valueFloat_ToInt32 impl f =
     (if IsNaN f then 0
      else if IsInf f 1 then word_of_int MaxInt32
      else if IsInf f (- 1) then word_of_int MinInt32
      else int32_float64 impl f)"

definition valueFloat_ToUInt32 :: "(float64 \<Rightarrow> uint32) \<Rightarrow> float64 \<Rightarrow> uint32" where
  "valueFloat_ToUInt32 impl f =
     (if IsNaN f then 0
      else if IsInf f 1 then word_of_int MaxInt32
      else if IsInf f (- 1) then 0
      else uint32_float64 impl f)"

definition valueFloat_SameAs :: "float64 \<Rightarrow> Value \<Rightarrow> bool" where
  "valueFloat_SameAs f other =
     (case other of
        valueFloat o1 \<Rightarrow>
          if IsNaN f \<and> IsNaN o1 then True
          else
            let ret = float_eq f o1
            in if ret \<and> float_eq f (Float64frombits 0) then Signbit f = Signbit o1 else ret
      | valueInt o1 \<Rightarrow>
          let ret = float_eq f (float64_int64 o1)
          in if ret \<and> float_eq f (Float64frombits 0) then \<not> Signbit f else ret
      | valueInt64 o1 \<Rightarrow>
          let ret = float_eq f (float64_int64 o1)
          in if ret \<and> float_eq f (Float64frombits 0) then \<not> Signbit f else ret
      | _ \<Rightarrow> False)"

definition valueFloat_StrictEquals :: "float64 \<Rightarrow> Value \<Rightarrow> bool" where
  "valueFloat_StrictEquals f other =
     (case other of
        valueFloat o1 \<Rightarrow> float_eq f o1
      | valueInt o1 \<Rightarrow> float_eq f (float64_int64 o1)
      | valueInt64 o1 \<Rightarrow> float_eq f (float64_int64 o1)
      | _ \<Rightarrow> False)"

text \<open>
  \<open>f == _negativeZero\<close> compares with an interface value holding \<open>valueFloat(-0.0)\<close>: the
  dynamic types agree, so it is the float comparison with \<open>-0.0\<close>, true of both zeros.
\<close>

definition valueFloat_hash :: "float64 \<Rightarrow> uint64" where
  "valueFloat_hash f = (if float_eq f negativeZero then 0 else Float64bits f)"

text \<open>
  \<open>Equals\<close> reduces an Object operand with \<open>toPrimitive\<close> and starts again; nothing in the
  types bounds how often, so the function is partial: \<open>None\<close> is not returning.  In
  \<open>o.ToNumber().Equals(i)\<close> the receiver is whatever the string's \<open>ToNumber\<close> returns: a
  \<open>valueInt\<close> or a \<open>valueFloat\<close> dispatches to the methods below, any other kind to the
  host's \<open>other_Equals\<close>.
\<close>

partial_function (option) valueFloat_Equals :: "host \<Rightarrow> float64 \<Rightarrow> Value \<Rightarrow> bool result option"
where
  "valueFloat_Equals h f other =
     (case other of
        valueFloat o1 \<Rightarrow> Some (Inr (float_eq f o1))
      | valueInt o1 \<Rightarrow> Some (Inr (float_eq f (float64_int64 o1)))
      | valueInt64 o1 \<Rightarrow> Some (Inr (float_eq f (float64_int64 o1)))
      | valueString s \<Rightarrow> Some (Inr (float_eq f (string_ToFloat h s)))
      | valueBool b \<Rightarrow> Some (Inr (float_eq f (valueBool_ToFloat b)))
      | VObject ob \<Rightarrow>
          (case toPrimitive h ob of
             Inl e \<Rightarrow> Some (Inl e)
           | Inr p \<Rightarrow> valueFloat_Equals h f p)
      | _ \<Rightarrow> Some (Inr False))"

partial_function (option) valueInt_Equals :: "host \<Rightarrow> int64 \<Rightarrow> Value \<Rightarrow> bool result option"
where
  "valueInt_Equals h i other =
     (case other of
        valueInt o1 \<Rightarrow> Some (Inr (i = o1))
      | valueInt64 o1 \<Rightarrow> Some (Inr (i = o1))
      | valueFloat o1 \<Rightarrow> Some (Inr (float_eq (float64_int64 i) o1))
      | valueString s \<Rightarrow>
          (case string_ToNumber h s of
             valueInt n \<Rightarrow> valueInt_Equals h n (valueInt i)
           | valueFloat g \<Rightarrow> valueFloat_Equals h g (valueInt i)
           | v \<Rightarrow> Some (other_Equals h v (valueInt i)))
      | valueBool b \<Rightarrow> Some (Inr (i = valueBool_ToInteger b))
      | VObject ob \<Rightarrow>
          (case toPrimitive h ob of
             Inl e \<Rightarrow> Some (Inl e)
           | Inr p \<Rightarrow> valueInt_Equals h i p)
      | _ \<Rightarrow> Some (Inr False))"

section \<open>valueProperty\<close>

text \<open>
  What \<open>Export\<close> returns (\<open>interface{}\<close>) and what \<open>ExportType\<close> returns (\<open>reflect.Type\<close>);
  \<open>nil\<close> is \<open>None\<close>.
\<close>

datatype go_any = AnyInt64 int64 | AnyFloat64 float64 | AnyBool bool | AnyString string

datatype reflect_Type =
  reflectTypeInt64 | reflectTypeFloat | reflectTypeBool | reflectTypeNil | reflectTypeString

text \<open>
  Modelled from the spec: \<open>stringEmpty\<close>, the \<open>valueString\<close> constant that the file uses
  and does not declare; the spec has the string coercion of a slot return the empty string.
\<close>

definition stringEmpty :: string where
  "stringEmpty = ''''"

definition valueProperty_ToInteger :: "valueProperty \<Rightarrow> int64" where
  "valueProperty_ToInteger p = 0"

definition valueProperty_toString :: "valueProperty \<Rightarrow> string" where
  "valueProperty_toString p = stringEmpty"

definition valueProperty_string :: "valueProperty \<Rightarrow> string" where
  "valueProperty_string p = ''''"

definition valueProperty_ToString :: "valueProperty \<Rightarrow> Value" where
  "valueProperty_ToString p = valueUndefined"

definition valueProperty_String :: "valueProperty \<Rightarrow> string" where
  "valueProperty_String p = ''''"

definition valueProperty_ToFloat :: "valueProperty \<Rightarrow> float64" where
  "valueProperty_ToFloat p = NaN"

definition valueProperty_ToBoolean :: "valueProperty \<Rightarrow> bool" where
  "valueProperty_ToBoolean p = False"

definition valueProperty_ToObject :: "valueProperty \<Rightarrow> Runtime \<Rightarrow> Object option" where
  "valueProperty_ToObject p r = None"

definition valueProperty_ToNumber :: "valueProperty \<Rightarrow> Value option" where
  "valueProperty_ToNumber p = None"

definition valueProperty_ToInt :: "valueProperty \<Rightarrow> int64" where
  "valueProperty_ToInt p = 0"

definition valueProperty_ToInt32 :: "valueProperty \<Rightarrow> int32" where
  "valueProperty_ToInt32 p = 0"

definition valueProperty_ToUInt32 :: "valueProperty \<Rightarrow> uint32" where
  "valueProperty_ToUInt32 p = 0"

definition valueProperty_ToInt64 :: "valueProperty \<Rightarrow> int64" where
  "valueProperty_ToInt64 p = 0"

definition valueProperty_Export :: "valueProperty \<Rightarrow> go_any option result" where
  "valueProperty_Export p = Inl (Panic ''Cannot export valueProperty'')"

definition valueProperty_ExportType :: "valueProperty \<Rightarrow> reflect_Type option result" where
  "valueProperty_ExportType p = Inl (Panic ''Cannot export valueProperty'')"

definition valueProperty_hash :: "valueProperty \<Rightarrow> uint64 result" where
  "valueProperty_hash p = Inl (Panic ''valueProperty should never be used in maps or sets'')"

definition isWritable :: "valueProperty \<Rightarrow> bool" where
  "isWritable p = (writable p \<or> setterFunc p \<noteq> None)"

text \<open>
  \<open>call, _ := f.self.assertCallable()\<close> drops the flag; when the object is not callable
  \<open>call\<close> is \<open>nil\<close> and calling it is a nil dereference, a panic of the Go runtime.
\<close>

definition call_object :: "host \<Rightarrow> Object \<Rightarrow> FunctionCall \<Rightarrow> Value result" where
  "call_object h f fc =
     (case assertCallable h f of
        None \<Rightarrow>
          Inl (RuntimeError ''runtime error: invalid memory address or nil pointer dereference'')
      | Some call \<Rightarrow> call fc)"

definition valueProperty_get :: "host \<Rightarrow> valueProperty \<Rightarrow> Value option \<Rightarrow> Value result" where
  "valueProperty_get h p this =
     (case getterFunc p of
        None \<Rightarrow> (case val p of Some v \<Rightarrow> Inr v | None \<Rightarrow> Inr valueUndefined)
      | Some g \<Rightarrow> call_object h g \<lparr>ctx = vm_ctx h g, This = this, Arguments = []\<rparr>)"

text \<open>\<open>set\<close> returns the slot as it is afterwards; the setter's result is dropped.\<close>

definition valueProperty_set ::
  "host \<Rightarrow> valueProperty \<Rightarrow> Value option \<Rightarrow> Value option \<Rightarrow> valueProperty result" where
  "valueProperty_set h p this v =
     (case setterFunc p of
        None \<Rightarrow> Inr (p\<lparr>val := v\<rparr>)
      | Some g \<Rightarrow>
          (case call_object h g \<lparr>ctx = vm_ctx h g, This = this, Arguments = [v]\<rparr> of
             Inl e \<Rightarrow> Inl e
           | Inr _ \<Rightarrow> Inr p))"

section \<open>valueUnresolved\<close>

text \<open>
  \<open>throw\<close> calls \<open>throwReferenceError\<close> of the reference's runtime with the unresolved
  name.
\<close>

definition valueUnresolved_throw :: "host \<Rightarrow> valueUnresolved \<Rightarrow> unit result" where
  "valueUnresolved_throw h u = throwReferenceError h (rt u) (ref u)"

text \<open>\<open>o.throw(); return x\<close>: the return is reached only when \<open>throw\<close> returns.\<close>

definition then_return :: "unit result \<Rightarrow> 'a \<Rightarrow> 'a result" where
  "then_return r x = (case r of Inl e \<Rightarrow> Inl e | Inr _ \<Rightarrow> Inr x)"

definition valueUnresolved_ToInteger :: "host \<Rightarrow> valueUnresolved \<Rightarrow> int64 result" where
  "valueUnresolved_ToInteger h u = then_return (valueUnresolved_throw h u) 0"

definition valueUnresolved_IsNumber :: "valueUnresolved \<Rightarrow> bool" where
  "valueUnresolved_IsNumber u = False"

definition valueUnresolved_IsObject :: "valueUnresolved \<Rightarrow> bool" where
  "valueUnresolved_IsObject u = False"

definition valueUnresolved_toString :: "host \<Rightarrow> valueUnresolved \<Rightarrow> string option result" where
  "valueUnresolved_toString h u = then_return (valueUnresolved_throw h u) None"

definition valueUnresolved_string :: "host \<Rightarrow> valueUnresolved \<Rightarrow> string result" where
  "valueUnresolved_string h u = then_return (valueUnresolved_throw h u) ''''"

definition valueUnresolved_ToString :: "host \<Rightarrow> valueUnresolved \<Rightarrow> Value option result" where
  "valueUnresolved_ToString h u = then_return (valueUnresolved_throw h u) None"

definition valueUnresolved_String :: "host \<Rightarrow> valueUnresolved \<Rightarrow> string result" where
  "valueUnresolved_String h u = then_return (valueUnresolved_throw h u) ''''"

definition valueUnresolved_ToFloat :: "host \<Rightarrow> valueUnresolved \<Rightarrow> float64 result" where
  "valueUnresolved_ToFloat h u = then_return (valueUnresolved_throw h u) (Float64frombits 0)"

definition valueUnresolved_ToBoolean :: "host \<Rightarrow> valueUnresolved \<Rightarrow> bool result" where
  "valueUnresolved_ToBoolean h u = then_return (valueUnresolved_throw h u) False"

definition valueUnresolved_ToObject :: "host \<Rightarrow> valueUnresolved \<Rightarrow> Runtime \<Rightarrow> Object option result" where
  "valueUnresolved_ToObject h u r = then_return (valueUnresolved_throw h u) None"

definition valueUnresolved_ToNumber :: "host \<Rightarrow> valueUnresolved \<Rightarrow> Value option result" where
  "valueUnresolved_ToNumber h u = then_return (valueUnresolved_throw h u) None"

definition valueUnresolved_SameAs :: "host \<Rightarrow> valueUnresolved \<Rightarrow> Value \<Rightarrow> bool result" where
  "valueUnresolved_SameAs h u other = then_return (valueUnresolved_throw h u) False"

definition valueUnresolved_Equals :: "host \<Rightarrow> valueUnresolved \<Rightarrow> Value \<Rightarrow> bool result" where
  "valueUnresolved_Equals h u other = then_return (valueUnresolved_throw h u) False"

definition valueUnresolved_StrictEquals :: "host \<Rightarrow> valueUnresolved \<Rightarrow> Value \<Rightarrow> bool result" where
  "valueUnresolved_StrictEquals h u other = then_return (valueUnresolved_throw h u) False"

definition valueUnresolved_baseObject :: "host \<Rightarrow> valueUnresolved \<Rightarrow> Runtime \<Rightarrow> Object option result" where
  "valueUnresolved_baseObject h u r = then_return (valueUnresolved_throw h u) None"

definition valueUnresolved_Export :: "host \<Rightarrow> valueUnresolved \<Rightarrow> go_any option result" where
  "valueUnresolved_Export h u = then_return (valueUnresolved_throw h u) None"

definition valueUnresolved_ExportType :: "host \<Rightarrow> valueUnresolved \<Rightarrow> reflect_Type option result" where
  "valueUnresolved_ExportType h u = then_return (valueUnresolved_throw h u) None"

definition valueUnresolved_hash :: "host \<Rightarrow> valueUnresolved \<Rightarrow> uint64 result" where
  "valueUnresolved_hash h u = then_return (valueUnresolved_throw h u) 0"

text \<open>
  \<open>MemUsage\<close> does not call \<open>throw\<close>: it returns the two sizes and a \<open>nil\<close> error.  \<open>len\<close> of
  the name is its number of bytes; the context is not read.
\<close>

definition valueUnresolved_MemUsage ::
  "valueUnresolved \<Rightarrow> 'ctx \<Rightarrow> uint64 \<times> uint64 \<times> error option" where
  "valueUnresolved_MemUsage u c =
     (of_nat (length (ref u)), of_nat (length (ref u)) + SizeString, None)"

definition valueUnresolved_ToInt :: "host \<Rightarrow> valueUnresolved \<Rightarrow> int64 result" where
  "valueUnresolved_ToInt h u = then_return (valueUnresolved_throw h u) 0"

definition valueUnresolved_ToInt32 :: "host \<Rightarrow> valueUnresolved \<Rightarrow> int32 result" where
  "valueUnresolved_ToInt32 h u = then_return (valueUnresolved_throw h u) 0"

definition valueUnresolved_ToUInt32 :: "host \<Rightarrow> valueUnresolved \<Rightarrow> uint32 result" where
  "valueUnresolved_ToUInt32 h u = then_return (valueUnresolved_throw h u) 0"

definition valueUnresolved_ToInt64 :: "host \<Rightarrow> valueUnresolved \<Rightarrow> int64 result" where
  "valueUnresolved_ToInt64 h u = then_return (valueUnresolved_throw h u) 0"

definition valueUnresolved_assertInt :: "host \<Rightarrow> valueUnresolved \<Rightarrow> (int64 \<times> bool) result" where
  "valueUnresolved_assertInt h u = then_return (valueUnresolved_throw h u) (0, False)"

definition valueUnresolved_assertUInt32 :: "host \<Rightarrow> valueUnresolved \<Rightarrow> (uint32 \<times> bool) result" where
  "valueUnresolved_assertUInt32 h u = then_return (valueUnresolved_throw h u) (0, False)"

definition valueUnresolved_assertInt32 :: "host \<Rightarrow> valueUnresolved \<Rightarrow> (int32 \<times> bool) result" where
  "valueUnresolved_assertInt32 h u = then_return (valueUnresolved_throw h u) (0, False)"

definition valueUnresolved_assertInt64 :: "host \<Rightarrow> valueUnresolved \<Rightarrow> (int64 \<times> bool) result" where
  "valueUnresolved_assertInt64 h u = then_return (valueUnresolved_throw h u) (0, False)"

definition valueUnresolved_assertFloat :: "host \<Rightarrow> valueUnresolved \<Rightarrow> (float64 \<times> bool) result" where
  "valueUnresolved_assertFloat h u = then_return (valueUnresolved_throw h u) (Float64frombits 0, False)"

definition valueUnresolved_assertString :: "host \<Rightarrow> valueUnresolved \<Rightarrow> (string option \<times> bool) result" where
  "valueUnresolved_assertString h u = then_return (valueUnresolved_throw h u) (None, False)"

section \<open>Example collaborators\<close>

text \<open>
  A host for concrete runs: object 1 is callable and returns the receiver it is called with
  (\<open>undefined\<close> when there is none); no other object is callable.  Its runtime raises
  the reference error that carries the name it is given.
\<close>

definition example_host :: host where
  "example_host =
     \<lparr>assertCallable =
        (\<lambda>f. if objId f = 1
             then Some (\<lambda>fc. Inr (case This fc of Some v \<Rightarrow> v | None \<Rightarrow> valueUndefined))
             else None),
      vm_ctx = (\<lambda>f. 0),
      toPrimitive = (\<lambda>f. Inr valueUndefined),
      string_ToNumber = (\<lambda>s. valueFloat NaN),
      string_ToFloat = (\<lambda>s. NaN),
      other_Equals = (\<lambda>a b. Inr False),
      throwReferenceError = (\<lambda>r name. Inl (ReferenceError name))\<rparr>"

definition example_slot :: "Value option \<Rightarrow> bool \<Rightarrow> bool \<Rightarrow> Object option \<Rightarrow> valueProperty" where
  "example_slot v w a g =
     \<lparr>val = v, writable = w, configurable = False, enumerable = False, accessor = a,
      getterFunc = g, setterFunc = None\<rparr>"

section \<open>Facts about the float64 model\<close>

text \<open>
  The conversions at known encodings: 1.0, -2.0, the tie \<open>2^53 + 1\<close> (rounded to even),
  \<open>math.MaxInt64\<close> (rounded up to \<open>2^63\<close>), and truncation of 5.0 and -2.5.
\<close>

lemma float64_conversion_examples:
  "float64_of_int 1 = Float64frombits 0x3FF0000000000000"
  "float64_of_int (- 2) = Float64frombits 0xC000000000000000"
  "float64_of_int (2 ^ 53 + 1) = Float64frombits 0x4340000000000000"
  "float64_of_int (2 ^ 63 - 1) = Float64frombits 0x43E0000000000000"
  "float64_trunc (Float64frombits 0x4014000000000000) = 5"
  "float64_trunc (Float64frombits 0xC004000000000000) = - 2"
  by code_simp+

lemma is_zero_fexp: "is_zero a \<Longrightarrow> fexp a = 0"
proof -
  assume z: "is_zero a"
  have m1: "(0x7FFFFFFFFFFFFFFF :: 64 word) = mask 63" by (simp add: mask_eq_exp_minus_1)
  have m2: "(0x7FF :: 64 word) = mask 11" by (simp add: mask_eq_exp_minus_1)
  from z have t: "take_bit 63 (Float64bits a) = 0"
    by (simp add: is_zero_def m1 take_bit_eq_mask)
  have "drop_bit 52 (Float64bits a) AND mask 11 = 0"
  proof (rule bit_eqI)
    fix n
    have "bit (take_bit 63 (Float64bits a)) (52 + n) = False" using t by simp
    then show "bit (drop_bit 52 (Float64bits a) AND mask 11) n = bit (0 :: 64 word) n"
      by (auto simp: bit_simps)
  qed
  then show ?thesis by (simp add: fexp_def m2)
qed

lemma is_zero_not_NaN: "is_zero a \<Longrightarrow> \<not> IsNaN a"
  by (simp add: IsNaN_def is_zero_fexp)

lemma is_zero_negativeZero: "is_zero negativeZero"
  by (simp add: is_zero_def negativeZero_def)

lemma is_zero_positiveZero: "is_zero (Float64frombits 0)"
  by (simp add: is_zero_def)

lemma float_eq_negativeZero: "float_eq a negativeZero \<longleftrightarrow> is_zero a"
proof
  assume "float_eq a negativeZero"
  then have "Float64bits a = Float64bits negativeZero \<or> is_zero a"
    by (auto simp: float_eq_def)
  then show "is_zero a"
    using is_zero_negativeZero by (auto simp: is_zero_def)
next
  assume "is_zero a"
  then show "float_eq a negativeZero"
    by (simp add: float_eq_def is_zero_not_NaN is_zero_negativeZero)
qed

lemma float_eq_zero: "float_eq a (Float64frombits 0) \<longleftrightarrow> is_zero a"
proof
  assume "float_eq a (Float64frombits 0)"
  then have "Float64bits a = 0 \<or> is_zero a"
    by (auto simp: float_eq_def)
  then show "is_zero a"
    by (auto simp: is_zero_def)
next
  assume "is_zero a"
  then show "float_eq a (Float64frombits 0)"
    by (simp add: float_eq_def is_zero_not_NaN is_zero_positiveZero)
qed

lemma valueFloat_hash_alt: "valueFloat_hash a = (if is_zero a then 0 else Float64bits a)"
  by (simp add: valueFloat_hash_def float_eq_negativeZero)

lemma float_eq_hash: "float_eq a b \<Longrightarrow> valueFloat_hash a = valueFloat_hash b"
proof -
  assume e: "float_eq a b"
  then consider "Float64bits a = Float64bits b" | "is_zero a" "is_zero b"
    by (auto simp: float_eq_def)
  then show ?thesis
  proof cases
    case 1
    then have "a = b" by (simp add: float64.expand)
    then show ?thesis by simp
  next
    case 2
    then show ?thesis by (simp add: valueFloat_hash_alt)
  qed
qed

lemma negativeZero_iff: "is_zero f \<and> Signbit f \<longleftrightarrow> f = negativeZero"
proof
  assume a: "is_zero f \<and> Signbit f"
  have m1: "(0x7FFFFFFFFFFFFFFF :: 64 word) = mask 63" by (simp add: mask_eq_exp_minus_1)
  from a have t: "take_bit 63 (Float64bits f) = 0"
    by (simp add: is_zero_def m1 take_bit_eq_mask)
  have "Float64bits f = 2 ^ 63"
  proof (rule bit_eqI)
    fix n
    assume n: "possible_bit TYPE(64 word) n"
    show "bit (Float64bits f) n = bit (2 ^ 63 :: 64 word) n"
    proof (cases "n < 63")
      case True
      have "bit (take_bit 63 (Float64bits f)) n = False" using t by simp
      with True have l: "\<not> bit (Float64bits f) n" by (simp add: bit_take_bit_iff)
      have r: "\<not> bit (2 ^ 63 :: 64 word) n" using True by (simp only: bit_exp_iff) simp
      from l r show ?thesis by simp
    next
      case False
      with n have e: "n = 63" by (simp add: possible_bit_word)
      have r: "bit (2 ^ 63 :: 64 word) 63" by (simp only: bit_exp_iff) simp
      from a e r show ?thesis by (simp add: Signbit_def)
    qed
  qed
  then show "f = negativeZero"
    by (simp add: negativeZero_def float64.expand)
next
  assume "f = negativeZero"
  then show "is_zero f \<and> Signbit f"
    by (simp add: is_zero_negativeZero) (simp add: negativeZero_def Signbit_def)
qed

lemma valueFloat_SameAs_valueInt:
  "valueFloat_SameAs f (valueInt n) \<longleftrightarrow> float_eq f (float64_int64 n) \<and> f \<noteq> negativeZero"
  using negativeZero_iff [of f]
  by (auto simp: valueFloat_SameAs_def Let_def float_eq_zero)

lemma valueProperty_get_by_getter:
  "(getterFunc p = Some g \<and> assertCallable h g = Some call \<longrightarrow>
      valueProperty_get h p r = call \<lparr>ctx = vm_ctx h g, This = r, Arguments = []\<rparr>) \<and>
   (getterFunc p = None \<longrightarrow>
      valueProperty_get h p r = Inr (case val p of Some v \<Rightarrow> v | None \<Rightarrow> valueUndefined))"
  by (simp add: valueProperty_get_def call_object_def split: option.splits)

lemma then_return_Inl: "r = Inl e \<Longrightarrow> then_return r x = Inl e"
  by (simp add: then_return_def)

section \<open>Hashing of numbers\<close>

text \<open>
  C1 (as amended).  The hash of a Float is 0 for both zeros and its IEEE-754 bit pattern
  otherwise, and the hash of an Integer is its own 64 bits.  So two Floats that compare equal
  (the pair +0.0 and -0.0 included) have the same hash, and Integer(0) hashes like both Float
  zeros; nothing more is said about a non-zero Integer and the Float of the same number.
\<close>

theorem valueFloat_hash_numeric:
  "(float_eq a b \<longrightarrow> valueFloat_hash a = valueFloat_hash b) \<and>
   valueFloat_hash positiveZero = valueInt_hash 0 \<and>
   valueFloat_hash negativeZero = valueInt_hash 0 \<and>
   valueFloat_hash a = (if is_zero a then 0 else Float64bits a) \<and>
   valueInt_hash i = i"
proof -
  have "valueFloat_hash positiveZero = valueInt_hash 0"
    by (simp add: valueFloat_hash_alt positiveZero_def is_zero_def valueInt_hash_def)
  moreover have "valueFloat_hash negativeZero = valueInt_hash 0"
    by (simp add: valueFloat_hash_alt is_zero_negativeZero valueInt_hash_def)
  ultimately show ?thesis
    using float_eq_hash [of a b] valueFloat_hash_alt [of a] by (simp add: valueInt_hash_def)
qed

text \<open>
  The theorem at the two zeros: they compare equal and both hash to 0.
\<close>

theorem valueFloat_hash_numeric_witness:
  "float_eq positiveZero negativeZero \<and>
   valueFloat_hash positiveZero = valueFloat_hash negativeZero \<and>
   valueFloat_hash positiveZero = 0 \<and> valueInt_hash 7 = 7"
proof -
  have e: "float_eq positiveZero negativeZero"
    by (simp add: float_eq_negativeZero positiveZero_def is_zero_def)
  have z: "is_zero positiveZero" by (simp add: positiveZero_def is_zero_def)
  show ?thesis
    using e z valueFloat_hash_numeric [of positiveZero negativeZero 7]
    by (simp add: valueInt_hash_def)
qed

text \<open>
  C1 as stated fails: \<open>float64(5)\<close> is the pattern \<open>0x4014000000000000\<close>, Integer(5)
  and Float(5.0) are StrictEquals in both directions, and their hashes are 5 and the pattern.
\<close>

theorem valueFloat_hash_counterexample:
  "float64_int64 5 = Float64frombits 0x4014000000000000 \<and>
   valueInt_StrictEquals 5 (valueFloat (float64_int64 5)) \<and>
   valueFloat_StrictEquals (float64_int64 5) (valueInt 5) \<and>
   valueInt_hash 5 = 5 \<and>
   valueFloat_hash (float64_int64 5) = 0x4014000000000000 \<and>
   valueInt_hash 5 \<noteq> valueFloat_hash (float64_int64 5)"
  by code_simp

section \<open>Equality of numbers\<close>

text \<open>
  C2.  Integer(n) against BigInteger(n), with the Integer as receiver: \<open>Equals\<close> and
  \<open>StrictEquals\<close> hold for every n, \<open>SameAs\<close> holds for none, since \<open>valueInt.SameAs\<close>
  compares with the interface value and the dynamic types differ.  The hash of the Integer
  is n.
\<close>

theorem valueInt_valueInt64_relations:
  "valueInt_Equals h n (valueInt64 n) = Some (Inr True) \<and>
   valueInt_StrictEquals n (valueInt64 n) \<and>
   \<not> valueInt_SameAs n (valueInt64 n) \<and>
   valueInt_hash n = n"
  by (simp add: valueInt_Equals.simps valueInt_StrictEquals_def valueInt_SameAs_def
      valueInt_hash_def)

text \<open>
  C3.  With the Float as receiver, \<open>SameAs\<close> against an Integer is numeric equality with
  -0.0 excluded; with the Integer as receiver it is false for every Float, so
  Integer(0) SameAs Float(+0.0) is false.
\<close>

theorem valueInt_SameAs_valueFloat:
  "\<not> valueInt_SameAs n (valueFloat f) \<and>
   valueFloat_SameAs f (valueInt n) = (float_eq f (float64_int64 n) \<and> f \<noteq> negativeZero) \<and>
   valueFloat_SameAs positiveZero (valueInt 0) \<and>
   \<not> valueFloat_SameAs negativeZero (valueInt 0) \<and>
   \<not> valueInt_SameAs 0 (valueFloat positiveZero)"
proof -
  have "valueFloat_SameAs positiveZero (valueInt 0)" by code_simp
  moreover have "\<not> valueFloat_SameAs negativeZero (valueInt 0)" by code_simp
  ultimately show ?thesis
    using valueFloat_SameAs_valueInt [of f n] by (simp add: valueInt_SameAs_def)
qed

text \<open>
  C10.  \<open>SameAs\<close> is not symmetric across the numeric kinds: Float(+0.0) SameAs Integer(0)
  and Float(5.0) SameAs Integer(5) hold, the converses do not; Float(5.0) SameAs
  BigInteger(5) holds and Integer(5) SameAs BigInteger(5) does not.
\<close>

theorem SameAs_not_symmetric:
  "valueFloat_SameAs positiveZero (valueInt 0) \<noteq> valueInt_SameAs 0 (valueFloat positiveZero) \<and>
   valueFloat_SameAs (float64_int64 5) (valueInt 5) \<noteq>
     valueInt_SameAs 5 (valueFloat (float64_int64 5)) \<and>
   valueFloat_SameAs (float64_int64 5) (valueInt64 5) \<and>
   \<not> valueInt_SameAs 5 (valueInt64 5)"
  by code_simp

text \<open>
  C9.  On Floats: any two NaNs are SameAs each other, +0.0 and -0.0 are not SameAs each
  other in either order, and they are Equals in both orders.
\<close>

theorem valueFloat_SameAs_Equals_special:
  "(IsNaN a \<and> IsNaN b \<longrightarrow> valueFloat_SameAs a (valueFloat b)) \<and>
   valueFloat_SameAs NaN (valueFloat NaN) \<and>
   \<not> valueFloat_SameAs positiveZero (valueFloat negativeZero) \<and>
   \<not> valueFloat_SameAs negativeZero (valueFloat positiveZero) \<and>
   valueFloat_Equals h positiveZero (valueFloat negativeZero) = Some (Inr True) \<and>
   valueFloat_Equals h negativeZero (valueFloat positiveZero) = Some (Inr True)"
proof -
  have z1: "float_eq positiveZero negativeZero" by code_simp
  have z2: "float_eq negativeZero positiveZero" by code_simp
  have "valueFloat_SameAs NaN (valueFloat NaN)" by code_simp
  moreover have "\<not> valueFloat_SameAs positiveZero (valueFloat negativeZero)" by code_simp
  moreover have "\<not> valueFloat_SameAs negativeZero (valueFloat positiveZero)" by code_simp
  moreover have "IsNaN a \<and> IsNaN b \<longrightarrow> valueFloat_SameAs a (valueFloat b)"
    by (simp add: valueFloat_SameAs_def)
  ultimately show ?thesis
    using z1 z2 by (simp add: valueFloat_Equals.simps)
qed

text \<open>
  The theorem at two NaNs of different sign and payload.
\<close>

theorem valueFloat_SameAs_Equals_special_witness:
  "IsNaN NaN \<and> IsNaN (Float64frombits 0xFFF8000000000000) \<and>
   valueFloat_SameAs NaN (valueFloat (Float64frombits 0xFFF8000000000000))"
proof -
  have n: "IsNaN NaN" "IsNaN (Float64frombits 0xFFF8000000000000)"
    by (simp_all add: IsNaN_def NaN_def fexp_def fman_def)
  show ?thesis
    using n valueFloat_SameAs_Equals_special [of NaN "Float64frombits 0xFFF8000000000000"]
    by simp
qed

section \<open>Coercion of a Float to uint32\<close>

text \<open>
  C5.  \<open>ToUInt32\<close> of NaN is 0 and of -Infinity is 0; of +Infinity it is
  \<open>uint32(math.MaxInt32)\<close>, that is \<open>0x7FFFFFFF\<close>, which is not the maximum uint32.
  \<open>ToInt32\<close> beside it returns the maximum of its own result type.
\<close>

theorem valueFloat_ToUInt32_special:
  "valueFloat_ToUInt32 impl NaN = 0 \<and>
   valueFloat_ToUInt32 impl (Inf 1) = 0x7FFFFFFF \<and>
   valueFloat_ToUInt32 impl (Inf 1) \<noteq> word_of_int MaxUint32 \<and>
   valueFloat_ToUInt32 impl (Inf (- 1)) = 0 \<and>
   valueFloat_ToInt32 impl' (Inf 1) = word_of_int MaxInt32"
  by (simp add: valueFloat_ToUInt32_def valueFloat_ToInt32_def NaN_def Inf_def IsNaN_def IsInf_def
      fexp_def fman_def MaxInt32_def MaxUint32_def)

section \<open>Unresolved references\<close>

text \<open>
  C4 (as amended).  When the runtime's \<open>throwReferenceError\<close> raises the reference error
  carrying the name, every coercion, equality relation, hash, export and type assertion of
  an unresolved reference raises that error and returns nothing.  The kind tests \<open>IsNumber\<close>
  and \<open>IsObject\<close> return false, and \<open>MemUsage\<close> returns the length of the name, the length
  plus the size of a string header, and no error: these three never call \<open>throw\<close>.
\<close>

theorem valueUnresolved_operations:
  "(throwReferenceError h (rt u) (ref u) = Inl (ReferenceError (ref u)) \<longrightarrow>
      valueUnresolved_ToInteger h u = Inl (ReferenceError (ref u)) \<and>
      valueUnresolved_ToInt h u = Inl (ReferenceError (ref u)) \<and>
      valueUnresolved_ToInt32 h u = Inl (ReferenceError (ref u)) \<and>
      valueUnresolved_ToUInt32 h u = Inl (ReferenceError (ref u)) \<and>
      valueUnresolved_ToInt64 h u = Inl (ReferenceError (ref u)) \<and>
      valueUnresolved_ToFloat h u = Inl (ReferenceError (ref u)) \<and>
      valueUnresolved_ToNumber h u = Inl (ReferenceError (ref u)) \<and>
      valueUnresolved_ToBoolean h u = Inl (ReferenceError (ref u)) \<and>
      valueUnresolved_ToObject h u r = Inl (ReferenceError (ref u)) \<and>
      valueUnresolved_baseObject h u r = Inl (ReferenceError (ref u)) \<and>
      valueUnresolved_toString h u = Inl (ReferenceError (ref u)) \<and>
      valueUnresolved_string h u = Inl (ReferenceError (ref u)) \<and>
      valueUnresolved_ToString h u = Inl (ReferenceError (ref u)) \<and>
      valueUnresolved_String h u = Inl (ReferenceError (ref u)) \<and>
      valueUnresolved_SameAs h u other = Inl (ReferenceError (ref u)) \<and>
      valueUnresolved_Equals h u other = Inl (ReferenceError (ref u)) \<and>
      valueUnresolved_StrictEquals h u other = Inl (ReferenceError (ref u)) \<and>
      valueUnresolved_hash h u = Inl (ReferenceError (ref u)) \<and>
      valueUnresolved_Export h u = Inl (ReferenceError (ref u)) \<and>
      valueUnresolved_ExportType h u = Inl (ReferenceError (ref u)) \<and>
      valueUnresolved_assertInt h u = Inl (ReferenceError (ref u)) \<and>
      valueUnresolved_assertUInt32 h u = Inl (ReferenceError (ref u)) \<and>
      valueUnresolved_assertInt32 h u = Inl (ReferenceError (ref u)) \<and>
      valueUnresolved_assertInt64 h u = Inl (ReferenceError (ref u)) \<and>
      valueUnresolved_assertFloat h u = Inl (ReferenceError (ref u)) \<and>
      valueUnresolved_assertString h u = Inl (ReferenceError (ref u))) \<and>
   valueUnresolved_IsNumber u = False \<and>
   valueUnresolved_IsObject u = False \<and>
   valueUnresolved_MemUsage u c =
     (of_nat (length (ref u)), of_nat (length (ref u)) + 16, None)"
proof -
  have raised: "then_return (valueUnresolved_throw h u) x = Inl (ReferenceError (ref u))"
    if "throwReferenceError h (rt u) (ref u) = Inl (ReferenceError (ref u))" for x :: 'x
    using that by (simp add: then_return_Inl valueUnresolved_throw_def)
  show ?thesis
    unfolding valueUnresolved_ToInteger_def valueUnresolved_ToInt_def valueUnresolved_ToInt32_def
    valueUnresolved_ToUInt32_def valueUnresolved_ToInt64_def valueUnresolved_ToFloat_def
    valueUnresolved_ToNumber_def valueUnresolved_ToBoolean_def valueUnresolved_ToObject_def
    valueUnresolved_baseObject_def valueUnresolved_toString_def valueUnresolved_string_def
    valueUnresolved_ToString_def valueUnresolved_String_def valueUnresolved_SameAs_def
    valueUnresolved_Equals_def valueUnresolved_StrictEquals_def valueUnresolved_hash_def
    valueUnresolved_Export_def valueUnresolved_ExportType_def valueUnresolved_assertInt_def
    valueUnresolved_assertUInt32_def valueUnresolved_assertInt32_def
    valueUnresolved_assertInt64_def valueUnresolved_assertFloat_def
    valueUnresolved_assertString_def
      valueUnresolved_IsNumber_def valueUnresolved_IsObject_def valueUnresolved_MemUsage_def
      SizeString_def
    by (simp add: raised)
qed

text \<open>
  The theorem at the reference to \<open>x\<close> in the example host: \<open>hash\<close>, \<open>ToBoolean\<close>, \<open>Export\<close> and
  \<open>SameAs\<close> raise the reference error for \<open>x\<close>.
\<close>

theorem valueUnresolved_operations_witness:
  "throwReferenceError example_host (MkRuntime 0) ''x'' = Inl (ReferenceError ''x'') \<and>
   valueUnresolved_hash example_host (MkUnresolved (MkRuntime 0) ''x'')
     = Inl (ReferenceError ''x'') \<and>
   valueUnresolved_ToBoolean example_host (MkUnresolved (MkRuntime 0) ''x'')
     = Inl (ReferenceError ''x'') \<and>
   valueUnresolved_Export example_host (MkUnresolved (MkRuntime 0) ''x'')
     = Inl (ReferenceError ''x'') \<and>
   valueUnresolved_SameAs example_host (MkUnresolved (MkRuntime 0) ''x'') valueNull
     = Inl (ReferenceError ''x'')"
proof -
  have t: "throwReferenceError example_host (MkRuntime 0) ''x'' = Inl (ReferenceError ''x'')"
    by (simp add: example_host_def)
  show ?thesis
    using t valueUnresolved_operations [of example_host "MkUnresolved (MkRuntime 0) ''x''"
        "MkRuntime 0" valueNull "()"]
    by simp
qed

text \<open>
  C4 as stated fails at memory accounting: for the name \<open>x\<close>, \<open>MemUsage\<close> returns
  (1, 17, nil) where \<open>hash\<close> raises.
\<close>

theorem valueUnresolved_MemUsage_counterexample:
  "valueUnresolved_MemUsage (MkUnresolved (MkRuntime 0) ''x'') () = (1, 17, None) \<and>
   valueUnresolved_hash example_host (MkUnresolved (MkRuntime 0) ''x'')
     = Inl (ReferenceError ''x'')"
  by (simp add: valueUnresolved_MemUsage_def SizeString_def valueUnresolved_hash_def
      valueUnresolved_throw_def then_return_def example_host_def)

section \<open>Property slots\<close>

text \<open>
  C6.  A slot holds a stored value or a getter/setter pair, never both: in accessor mode
  there is no stored value, and out of accessor mode there is no getter.  On every such slot
  and for every receiver: with a (callable) getter, \<open>get\<close> calls the getter with the receiver
  as \<open>This\<close> and no arguments and returns its result; with no getter and in accessor mode it
  returns Undefined; out of accessor mode it returns the stored value, or Undefined when none
  is set.
\<close>

theorem valueProperty_get_cases:
  assumes "accessor p \<longrightarrow> val p = None"
    and "\<not> accessor p \<longrightarrow> getterFunc p = None"
  shows
    "(getterFunc p = Some g \<and> assertCallable h g = Some call \<longrightarrow>
        valueProperty_get h p r = call \<lparr>ctx = vm_ctx h g, This = r, Arguments = []\<rparr>) \<and>
     (getterFunc p = None \<and> accessor p \<longrightarrow> valueProperty_get h p r = Inr valueUndefined) \<and>
     (\<not> accessor p \<longrightarrow>
        valueProperty_get h p r = Inr (case val p of Some v \<Rightarrow> v | None \<Rightarrow> valueUndefined))"
proof (intro conjI impI)
  assume "getterFunc p = Some g \<and> assertCallable h g = Some call"
  then show "valueProperty_get h p r = call \<lparr>ctx = vm_ctx h g, This = r, Arguments = []\<rparr>"
    using valueProperty_get_by_getter [of p g h call r] by simp
next
  assume a: "getterFunc p = None \<and> accessor p"
  with assms(1) have "val p = None" by simp
  with a show "valueProperty_get h p r = Inr valueUndefined"
    using valueProperty_get_by_getter [of p g h call r] by simp
next
  assume "\<not> accessor p"
  with assms(2) have "getterFunc p = None" by simp
  then show "valueProperty_get h p r = Inr (case val p of Some v \<Rightarrow> v | None \<Rightarrow> valueUndefined)"
    using valueProperty_get_by_getter [of p g h call r] by simp
qed

text \<open>
  The theorem at three slots: an accessor slot whose getter returns its receiver, an
  accessor slot with neither getter nor stored value, and data slots holding 3 and nothing.
\<close>

theorem valueProperty_get_cases_witness:
  "valueProperty_get example_host (example_slot None False True (Some (MkObject 1)))
     (Some (valueInt 7)) = Inr (valueInt 7) \<and>
   valueProperty_get example_host (example_slot None False True None)
     (Some (valueInt 7)) = Inr valueUndefined \<and>
   valueProperty_get example_host (example_slot (Some (valueInt 3)) True False None)
     (Some (valueInt 7)) = Inr (valueInt 3) \<and>
   valueProperty_get example_host (example_slot None True False None)
     (Some (valueInt 7)) = Inr valueUndefined"
  using
    valueProperty_get_cases [where p = "example_slot None False True (Some (MkObject 1))"
      and g = "MkObject 1" and h = example_host and r = "Some (valueInt 7)"
      and call = "\<lambda>fc. Inr (case This fc of Some v \<Rightarrow> v | None \<Rightarrow> valueUndefined)"]
    valueProperty_get_cases [where p = "example_slot None False True None"
      and g = "MkObject 1" and h = example_host and r = "Some (valueInt 7)"
      and call = "\<lambda>fc. Inr (case This fc of Some v \<Rightarrow> v | None \<Rightarrow> valueUndefined)"]
    valueProperty_get_cases [where p = "example_slot (Some (valueInt 3)) True False None"
      and g = "MkObject 1" and h = example_host and r = "Some (valueInt 7)"
      and call = "\<lambda>fc. Inr (case This fc of Some v \<Rightarrow> v | None \<Rightarrow> valueUndefined)"]
    valueProperty_get_cases [where p = "example_slot None True False None"
      and g = "MkObject 1" and h = example_host and r = "Some (valueInt 7)"
      and call = "\<lambda>fc. Inr (case This fc of Some v \<Rightarrow> v | None \<Rightarrow> valueUndefined)"]
  by (simp add: example_slot_def example_host_def)

text \<open>
  C7.  On a slot with no setter, \<open>set\<close> stores the new value whatever the writable flag
  is and changes nothing else; \<open>isWritable\<close> is the writable flag or the presence of a
  setter.
\<close>

theorem valueProperty_set_overwrites:
  "(setterFunc p = None \<longrightarrow> valueProperty_set h p this v = Inr (p\<lparr>val := v\<rparr>)) \<and>
   isWritable q = (writable q \<or> setterFunc q \<noteq> None)"
  by (simp add: valueProperty_set_def isWritable_def)

text \<open>
  The theorem at a data slot that is not writable: \<open>set\<close> replaces 1 by 2.
\<close>

theorem valueProperty_set_overwrites_witness:
  "setterFunc (example_slot (Some (valueInt 1)) False False None) = None \<and>
   \<not> writable (example_slot (Some (valueInt 1)) False False None) \<and>
   valueProperty_set example_host (example_slot (Some (valueInt 1)) False False None)
     None (Some (valueInt 2)) = Inr (example_slot (Some (valueInt 2)) False False None) \<and>
   \<not> isWritable (example_slot (Some (valueInt 1)) False False None)"
  using valueProperty_set_overwrites [of "example_slot (Some (valueInt 1)) False False None"
      example_host None "Some (valueInt 2)" "example_slot (Some (valueInt 1)) False False None"]
  by (simp add: example_slot_def)

text \<open>
  C8.  On every slot \<open>ToBoolean\<close> is false and the string coercions \<open>String\<close>, \<open>string\<close>
  and \<open>toString\<close> return the empty string (\<open>toString\<close> the constant \<open>stringEmpty\<close>); the
  other coercions return fixed defaults too; \<open>hash\<close>, \<open>Export\<close> and \<open>ExportType\<close> panic.
\<close>

theorem valueProperty_scalar_coercions:
  "valueProperty_ToBoolean p = False \<and>
   valueProperty_String p = '''' \<and>
   valueProperty_string p = '''' \<and>
   valueProperty_toString p = stringEmpty \<and>
   stringEmpty = '''' \<and>
   valueProperty_ToString p = valueUndefined \<and>
   valueProperty_ToNumber p = None \<and>
   valueProperty_ToObject p r = None \<and>
   valueProperty_ToFloat p = NaN \<and>
   valueProperty_ToInteger p = 0 \<and>
   valueProperty_ToInt p = 0 \<and>
   valueProperty_ToInt32 p = 0 \<and>
   valueProperty_ToUInt32 p = 0 \<and>
   valueProperty_ToInt64 p = 0 \<and>
   valueProperty_hash p = Inl (Panic ''valueProperty should never be used in maps or sets'') \<and>
   valueProperty_Export p = Inl (Panic ''Cannot export valueProperty'') \<and>
   valueProperty_ExportType p = Inl (Panic ''Cannot export valueProperty'')"
  by (simp add: valueProperty_ToBoolean_def valueProperty_String_def valueProperty_string_def
      valueProperty_toString_def stringEmpty_def valueProperty_ToString_def
      valueProperty_ToNumber_def valueProperty_ToObject_def valueProperty_ToFloat_def
      valueProperty_ToInteger_def valueProperty_ToInt_def valueProperty_ToInt32_def
      valueProperty_ToUInt32_def valueProperty_ToInt64_def valueProperty_hash_def
      valueProperty_Export_def valueProperty_ExportType_def)

end
